theory Spec2Isabelle
  imports Main
begin

section \<open>The chat-room runtime of main.py\<close>

text \<open>
  The development embeds the live chat-room part of \<^verbatim>\<open>main.py\<close>: the
  \<^verbatim>\<open>ConnectionManager\<close> class, \<^verbatim>\<open>handle_command\<close> with its nested
  \<^verbatim>\<open>has_privilege\<close>, and \<^verbatim>\<open>websocket_endpoint\<close>.

  Conventions of the embedding.
  \<^item> One task runs at a time: every coroutine is executed from its call to its return
    without another task interleaved at an \<^verbatim>\<open>await\<close>.
  \<^item> A WebSocket object is identified by a natural number; Python's \<^verbatim>\<open>is\<close> on
    WebSocket objects is equality of these numbers.
  \<^item> The SQLite tables are finite maps held in the state; a query is a lookup, and raises
    OverflowError when an integer it binds does not fit the 64 bits of an SQLite INTEGER.
  \<^item> The transport is a part of the state: a socket is either alive or not, a send to a
    socket that is not alive raises, every delivered event and every close is logged.
  \<^item> A Python call either returns or raises; both outcomes carry the state reached.
  \<^item> Python strings are lists of \<^typ>\<open>char\<close>, read as code points below 256.
\<close>

subsection \<open>Data\<close>

type_synonym ws = nat

text \<open>The connection dict \<^verbatim>\<open>{"ws": .., "user_id": .., "username": .., "role": ..}\<close>.\<close>

record conn =
  ws :: ws
  user_id :: int
  username :: string
  role :: string

text \<open>A row of the \<^verbatim>\<open>users\<close> table, with the columns the runtime reads.\<close>

record user_row =
  u_id :: int
  u_username :: string
  u_role :: string

text \<open>An entry of the list built by \<^verbatim>\<open>get_room_users\<close>.\<close>

record member =
  m_user_id :: int
  m_username :: string
  m_role :: string

text \<open>The JSON objects the server sends, one constructor for each \<^verbatim>\<open>"type"\<close>.\<close>

datatype event =
    User_joined int string string "member list"
  | User_left int string "member list"
  | Chat_message int string string string
  | Image_message int string string string
  | Role_update "int option" string "member list"
  | Kicked string
  | Warn string
  | Error string

datatype error =
    UnboundLocalError
  | ValueError
  | IntegrityError
  | SendError
  | OSError
  | OverflowError
  | WebSocketDisconnect

datatype 'a outcome = Return 'a | Raise error

record world =
  rooms :: "int \<rightharpoonup> conn list"
  users :: "int \<rightharpoonup> user_row"
  room_roles :: "(int \<times> int) \<rightharpoonup> string"
  room_bans :: "(int \<times> int) \<rightharpoonup> string"
  uploads :: "(string \<times> string) list"
  alive :: "ws \<Rightarrow> bool"
  sent :: "(ws \<times> event) list"
  closed :: "(ws \<times> nat) list"

subsection \<open>The transport\<close>

text \<open>
  \<^verbatim>\<open>ws.send_json(message)\<close>: delivers the event, or raises when the socket is not
  alive. \<^verbatim>\<open>ws.close(code)\<close>: records the close code; the socket is not alive afterwards.
\<close>

definition send_json :: "world \<Rightarrow> ws \<Rightarrow> event \<Rightarrow> unit outcome \<times> world" where
  "send_json s w msg =
     (if alive s w then (Return (), s\<lparr>sent := sent s @ [(w, msg)]\<rparr>)
      else (Raise SendError, s))"

definition ws_close :: "world \<Rightarrow> ws \<Rightarrow> nat \<Rightarrow> world" where
  "ws_close s w code = s\<lparr>alive := (alive s)(w := False), closed := closed s @ [(w, code)]\<rparr>"

definition WS_1000_NORMAL_CLOSURE :: nat where
  "WS_1000_NORMAL_CLOSURE = 1000"

definition WS_1008_POLICY_VIOLATION :: nat where
  "WS_1008_POLICY_VIOLATION = 1008"

subsection \<open>Database queries\<close>

text \<open>
  The \<^verbatim>\<open>sqlite3\<close> module binds a Python integer as a signed 64-bit value and raises
  OverflowError for any other integer, before the statement runs.
\<close>

definition int64 :: "int \<Rightarrow> bool" where
  "int64 n = (- 9223372036854775808 \<le> n \<and> n \<le> 9223372036854775807)"

definition get_user_by_id :: "world \<Rightarrow> int \<Rightarrow> user_row option outcome" where
  "get_user_by_id s uid = (if int64 uid then Return (users s uid) else Raise OverflowError)"

definition get_room_roles :: "world \<Rightarrow> int \<Rightarrow> (int \<rightharpoonup> string) outcome" where
  "get_room_roles s room_id =
     (if int64 room_id then Return (\<lambda>uid. room_roles s (room_id, uid)) else Raise OverflowError)"

definition is_banned :: "world \<Rightarrow> int \<Rightarrow> int \<Rightarrow> bool outcome" where
  "is_banned s room_id uid =
     (if int64 room_id \<and> int64 uid then Return (room_bans s (room_id, uid) \<noteq> None)
      else Raise OverflowError)"

text \<open>
  \<^verbatim>\<open>assign_room_role\<close>: a role other than owner or host is ignored. The parameters
  are bound in the order room, user, role: an integer out of range raises OverflowError, and
  a missing \<^verbatim>\<open>target_id\<close> (Python's \<^verbatim>\<open>None\<close>) is bound as NULL and violates the
  NOT NULL constraint of the \<^verbatim>\<open>user_id\<close> column when the statement runs.
\<close>

definition assign_room_role :: "world \<Rightarrow> int \<Rightarrow> int option \<Rightarrow> string \<Rightarrow> unit outcome \<times> world" where
  "assign_room_role s room_id target r =
     (if r \<notin> set [''owner'', ''host''] then (Return (), s)
      else if \<not> int64 room_id then (Raise OverflowError, s)
      else case target of
             None \<Rightarrow> (Raise IntegrityError, s)
           | Some uid \<Rightarrow>
               if \<not> int64 uid then (Raise OverflowError, s)
               else (Return (), s\<lparr>room_roles := (room_roles s)((room_id, uid) \<mapsto> r)\<rparr>))"

subsection \<open>ConnectionManager\<close>

text \<open>\<^verbatim>\<open>self.rooms.get(room_id, [])\<close>\<close>

definition rooms_get :: "world \<Rightarrow> int \<Rightarrow> conn list" where
  "rooms_get s room_id = (case rooms s room_id of None \<Rightarrow> [] | Some cs \<Rightarrow> cs)"

text \<open>\<^verbatim>\<open>list.remove(x)\<close>: removes the first element equal to x, raises when there is none.\<close>

definition list_remove :: "'a list \<Rightarrow> 'a \<Rightarrow> 'a list outcome" where
  "list_remove xs x = (if x \<in> set xs then Return (remove1 x xs) else Raise ValueError)"

definition get_room_users :: "world \<Rightarrow> int \<Rightarrow> member list" where
  "get_room_users s room_id =
     map (\<lambda>c. \<lparr>m_user_id = user_id c, m_username = username c, m_role = role c\<rparr>)
       (rooms_get s room_id)"

definition get_connection :: "world \<Rightarrow> int \<Rightarrow> int option \<Rightarrow> conn option" where
  "get_connection s room_id target =
     find (\<lambda>c. Some (user_id c) = target) (rooms_get s room_id)"

text \<open>
  \<^verbatim>\<open>broadcast\<close>. The list \<^verbatim>\<open>conns\<close> is the very list object stored in
  \<^verbatim>\<open>self.rooms\<close> when the room has an entry, so a removal inside the loop is a
  removal from the registry; the loop runs over the copy \<^verbatim>\<open>list(conns)\<close>. When the
  room has no entry the copy is empty and the loop body never runs. The final assignment
  \<^verbatim>\<open>self.rooms[room_id] = conns\<close> creates the entry if it was missing.
\<close>

fun broadcast_loop :: "world \<Rightarrow> int \<Rightarrow> conn list \<Rightarrow> event \<Rightarrow> unit outcome \<times> world" where
  "broadcast_loop s room_id [] msg = (Return (), s)"
| "broadcast_loop s room_id (c # cs) msg =
     (case send_json s (ws c) msg of
        (Return _, s') \<Rightarrow> broadcast_loop s' room_id cs msg
      | (Raise _, s') \<Rightarrow>
          (case list_remove (rooms_get s' room_id) c of
             Raise e \<Rightarrow> (Raise e, s')
           | Return conns' \<Rightarrow>
               broadcast_loop (s'\<lparr>rooms := (rooms s')(room_id \<mapsto> conns')\<rparr>) room_id cs msg))"

definition broadcast :: "world \<Rightarrow> int \<Rightarrow> event \<Rightarrow> unit outcome \<times> world" where
  "broadcast s room_id msg =
     (case broadcast_loop s room_id (rooms_get s room_id) msg of
        (Raise e, s') \<Rightarrow> (Raise e, s')
      | (Return _, s') \<Rightarrow> (Return (), s'\<lparr>rooms := (rooms s')(room_id \<mapsto> rooms_get s' room_id)\<rparr>))"

text \<open>
  \<^verbatim>\<open>connect\<close>. \<^verbatim>\<open>ws.accept()\<close> has no effect on the state of the model.
\<close>

definition connect :: "world \<Rightarrow> int \<Rightarrow> ws \<Rightarrow> user_row \<Rightarrow> unit outcome \<times> world" where
  "connect s room_id w user =
     (let s1 = (if rooms s room_id = None then s\<lparr>rooms := (rooms s)(room_id \<mapsto> [])\<rparr> else s)
      in case get_room_roles s1 room_id of
           Raise e \<Rightarrow> (Raise e, s1)
         | Return roles \<Rightarrow>
             (let r = (case roles (u_id user) of None \<Rightarrow> ''user'' | Some x \<Rightarrow> x);
                  conn_info = \<lparr>ws = w, user_id = u_id user, username = u_username user, role = r\<rparr>;
                  s2 = s1\<lparr>rooms := (rooms s1)(room_id \<mapsto> rooms_get s1 room_id @ [conn_info])\<rparr>
              in broadcast s2 room_id
                   (User_joined (u_id user) (u_username user) r (get_room_users s2 room_id))))"

text \<open>
  \<^verbatim>\<open>disconnect\<close>. The function returns the loop variable \<^verbatim>\<open>conn\<close>: the entry
  found when the loop left through \<^verbatim>\<open>break\<close>, the last entry of the copy when the
  loop ran to its end, and an unbound name (Python raises UnboundLocalError) when the copy
  was empty. The assignment \<^verbatim>\<open>self.rooms[room_id] = room_conns\<close> comes before the
  \<^verbatim>\<open>return\<close>.
\<close>

definition disconnect :: "world \<Rightarrow> int \<Rightarrow> ws \<Rightarrow> conn outcome \<times> world" where
  "disconnect s room_id w =
     (let room_conns = rooms_get s room_id in
      case find (\<lambda>c. ws c = w) room_conns of
        Some c \<Rightarrow>
          (case list_remove room_conns c of
             Raise e \<Rightarrow> (Raise e, s)
           | Return room_conns' \<Rightarrow> (Return c, s\<lparr>rooms := (rooms s)(room_id \<mapsto> room_conns')\<rparr>))
      | None \<Rightarrow>
          (let s' = s\<lparr>rooms := (rooms s)(room_id \<mapsto> room_conns)\<rparr> in
           if room_conns = [] then (Raise UnboundLocalError, s')
           else (Return (last room_conns), s')))"

subsection \<open>Moderation commands\<close>

text \<open>
  \<^verbatim>\<open>has_privilege\<close> is a closure over \<^verbatim>\<open>global_role\<close> and
  \<^verbatim>\<open>caller_role\<close>; here they are its first two arguments.
\<close>

definition has_privilege :: "string \<Rightarrow> string \<Rightarrow> string \<Rightarrow> bool" where
  "has_privilege global_role caller_role action =
     (if global_role = ''sysop'' then True
      else if action \<in> set [''kick'', ''warn''] \<and> caller_role \<in> set [''owner'', ''host''] then True
      else if action \<in> set [''assign_host'', ''assign_owner''] \<and> caller_role = ''owner'' then True
      else False)"

text \<open>
  \<^verbatim>\<open>target_conn["role"] = r\<close> writes to the dict that \<^verbatim>\<open>get_connection\<close>
  returned, which is the first entry of the room's list with the target's user id.
\<close>

fun set_first_role :: "int option \<Rightarrow> string \<Rightarrow> conn list \<Rightarrow> conn list" where
  "set_first_role target r [] = []"
| "set_first_role target r (c # cs) =
     (if Some (user_id c) = target then c\<lparr>role := r\<rparr> # cs else c # set_first_role target r cs)"

definition set_target_role :: "world \<Rightarrow> int \<Rightarrow> int option \<Rightarrow> string \<Rightarrow> world" where
  "set_target_role s room_id target r =
     (case get_connection s room_id target of
        None \<Rightarrow> s
      | Some _ \<Rightarrow> s\<lparr>rooms := (rooms s)(room_id \<mapsto> set_first_role target r (rooms_get s room_id))\<rparr>)"

definition error_message :: string where
  "error_message = ''You are not authorized to perform this action or unknown command.''"

text \<open>
  The branch of \<^verbatim>\<open>assign_host\<close> and \<^verbatim>\<open>assign_owner\<close>, which differ in the role
  only.
\<close>

definition assign_branch :: "world \<Rightarrow> int \<Rightarrow> int option \<Rightarrow> string \<Rightarrow> unit outcome \<times> world" where
  "assign_branch s room_id target_id r =
     (case assign_room_role s room_id target_id r of
        (Raise e, s1) \<Rightarrow> (Raise e, s1)
      | (Return _, s1) \<Rightarrow>
          (let s2 = set_target_role s1 room_id target_id r
           in broadcast s2 room_id (Role_update target_id r (get_room_users s2 room_id))))"

text \<open>
  \<^verbatim>\<open>handle_command\<close>. The query \<^verbatim>\<open>get_room(room_id)\<close>, whose result is not
  used, binds the room id that \<^verbatim>\<open>get_room_roles\<close> has bound already, so it raises
  nothing new and is left out.
\<close>

definition handle_command ::
  "world \<Rightarrow> int \<Rightarrow> int \<Rightarrow> string option \<Rightarrow> int option \<Rightarrow> string \<Rightarrow> unit outcome \<times> world" where
  "handle_command s room_id caller_id command target_id reason =
     (case get_room_roles s room_id of
        Raise e \<Rightarrow> (Raise e, s)
      | Return roles \<Rightarrow>
     (case get_user_by_id s caller_id of
        Raise e \<Rightarrow> (Raise e, s)
      | Return caller \<Rightarrow>
     (let caller_role = (case roles caller_id of None \<Rightarrow> ''user'' | Some r \<Rightarrow> r);
          global_role = (case caller of None \<Rightarrow> ''user'' | Some u \<Rightarrow> u_role u)
      in
      if command = Some ''kick'' \<and> has_privilege global_role caller_role ''kick'' then
        (case get_connection s room_id target_id of
           None \<Rightarrow> (Return (), s)
         | Some target_conn \<Rightarrow>
             (case send_json s (ws target_conn) (Kicked reason) of
                (Raise e, s1) \<Rightarrow> (Raise e, s1)
              | (Return _, s1) \<Rightarrow> (Return (), ws_close s1 (ws target_conn) WS_1000_NORMAL_CLOSURE)))
      else if command = Some ''warn'' \<and> has_privilege global_role caller_role ''warn'' then
        (case get_connection s room_id target_id of
           None \<Rightarrow> (Return (), s)
         | Some target_conn \<Rightarrow> send_json s (ws target_conn) (Warn reason))
      else if command = Some ''assign_host'' \<and> has_privilege global_role caller_role ''assign_host'' then
        assign_branch s room_id target_id ''host''
      else if command = Some ''assign_owner'' \<and> has_privilege global_role caller_role ''assign_owner'' then
        assign_branch s room_id target_id ''owner''
      else
        (case get_connection s room_id (Some caller_id) of
           None \<Rightarrow> (Return (), s)
         | Some caller_conn \<Rightarrow> send_json s (ws caller_conn) (Error error_message)))))"

text \<open>
  The decision of the \<^verbatim>\<open>if\<close>/\<^verbatim>\<open>elif\<close> chain of \<^verbatim>\<open>handle_command\<close>: the
  command is allowed when one of the four guarded branches is taken, denied when the final
  \<^verbatim>\<open>else\<close> is.
\<close>

definition authorize :: "string \<Rightarrow> string \<Rightarrow> string option \<Rightarrow> bool" where
  "authorize global_role caller_role command =
     (if command = Some ''kick'' \<and> has_privilege global_role caller_role ''kick'' then True
      else if command = Some ''warn'' \<and> has_privilege global_role caller_role ''warn'' then True
      else if command = Some ''assign_host'' \<and> has_privilege global_role caller_role ''assign_host'' then True
      else if command = Some ''assign_owner'' \<and> has_privilege global_role caller_role ''assign_owner'' then True
      else False)"

subsection \<open>Strings and integers of Python\<close>

text \<open>
  \<^verbatim>\<open>str.strip()\<close> removes leading and trailing whitespace; below code point 256
  the whitespace characters are 9 to 13, 28 to 32, 133 and 160.
\<close>

definition is_space :: "char \<Rightarrow> bool" where
  "is_space c = ((of_char c :: nat) \<in> set [9, 10, 11, 12, 13, 28, 29, 30, 31, 32, 133, 160])"

definition strip :: "string \<Rightarrow> string" where
  "strip s = rev (dropWhile is_space (rev (dropWhile is_space s)))"

definition is_digit :: "char \<Rightarrow> bool" where
  "is_digit c = (48 \<le> (of_char c :: nat) \<and> (of_char c :: nat) \<le> 57)"

text \<open>
  \<^verbatim>\<open>int(s)\<close> on a string: surrounding whitespace, an optional sign, then decimal
  digits, where single underscores may stand between digits. \<^verbatim>\<open>None\<close> stands for
  the ValueError. The whitespace \<^verbatim>\<open>int\<close> skips is narrower than that of
  \<^verbatim>\<open>str.strip()\<close>: below code point 256 it is 9 to 13, 32, 133 and 160, and not the
  separators 28 to 31.
\<close>

definition is_int_space :: "char \<Rightarrow> bool" where
  "is_int_space c = ((of_char c :: nat) \<in> set [9, 10, 11, 12, 13, 32, 133, 160])"

definition int_strip :: "string \<Rightarrow> string" where
  "int_strip s = rev (dropWhile is_int_space (rev (dropWhile is_int_space s)))"

fun digits_value :: "nat \<Rightarrow> string \<Rightarrow> nat option" where
  "digits_value acc [] = Some acc"
| "digits_value acc (c # cs) =
     (if is_digit c then digits_value (10 * acc + ((of_char c :: nat) - 48)) cs
      else if c = CHR ''_'' \<and> (case cs of [] \<Rightarrow> False | d # _ \<Rightarrow> is_digit d) then digits_value acc cs
      else None)"

definition unsigned_value :: "string \<Rightarrow> nat option" where
  "unsigned_value s = (case s of [] \<Rightarrow> None | d # _ \<Rightarrow> if is_digit d then digits_value 0 s else None)"

definition py_int :: "string \<Rightarrow> int option" where
  "py_int s =
     (case int_strip s of
        [] \<Rightarrow> None
      | c # cs \<Rightarrow>
          if c = CHR ''-'' then map_option (\<lambda>n. - int n) (unsigned_value cs)
          else if c = CHR ''+'' then map_option int (unsigned_value cs)
          else map_option int (unsigned_value (c # cs)))"

text \<open>\<^verbatim>\<open>str(n)\<close> on an integer.\<close>

function digits_of :: "nat \<Rightarrow> string" where
  "digits_of n =
     (if n < 10 then [char_of (48 + n)] else digits_of (n div 10) @ [char_of (48 + n mod 10)])"
  by pat_completeness auto
termination
  by (relation "measure (\<lambda>n. n)") auto

definition py_str :: "int \<Rightarrow> string" where
  "py_str i = (if i < 0 then CHR ''-'' # digits_of (nat (- i)) else digits_of (nat i))"

subsection \<open>The session\<close>

text \<open>
  An inbound JSON object, with the fields the endpoint reads at the types of the protocol.
  \<^verbatim>\<open>None\<close> is a key that is missing.
\<close>

record inbound =
  d_type :: "string option"
  d_message :: "string option"
  d_data :: "string option"
  d_ext :: "string option"
  d_command :: "string option"
  d_target_id :: "int option"
  d_reason :: "string option"

text \<open>
  What one pass of the message loop takes from outside the program: the clock, the random
  token, the base64 decoder of the library (\<^verbatim>\<open>None\<close> when it raises) and whether
  writing the file succeeds.
\<close>

record env =
  utcnow :: string
  token_hex :: string
  b64decode :: "string \<Rightarrow> string option"
  write_file :: "string \<Rightarrow> string \<Rightarrow> bool"

text \<open>\<^verbatim>\<open>img_data.split(",", 1) if "," in img_data else ("", img_data)\<close>, second part.\<close>

definition encoded_part :: "string \<Rightarrow> string" where
  "encoded_part img_data =
     (if CHR '','' \<in> set img_data then tl (dropWhile (\<lambda>c. c \<noteq> CHR '','') img_data) else img_data)"

text \<open>
  The body of the \<^verbatim>\<open>try\<close> of the image branch. Everything it raises, the
  \<^verbatim>\<open>except Exception: pass\<close> around it discards.
\<close>

definition image_upload :: "env \<Rightarrow> world \<Rightarrow> int \<Rightarrow> int \<Rightarrow> user_row \<Rightarrow> string \<Rightarrow> string \<Rightarrow> unit outcome \<times> world" where
  "image_upload e s room_id uid user img_data ext =
     (case b64decode e (encoded_part img_data) of
        None \<Rightarrow> (Raise ValueError, s)
      | Some binary_data \<Rightarrow>
          (let unique_name = token_hex e @ ext in
           if \<not> write_file e unique_name binary_data then (Raise OSError, s)
           else
             (let s1 = s\<lparr>uploads := uploads s @ [(unique_name, binary_data)]\<rparr>;
                  url = ''/uploads/'' @ unique_name
              in broadcast s1 room_id (Image_message uid (u_username user) url (utcnow e)))))"

text \<open>One pass of the \<^verbatim>\<open>while True\<close> loop, after \<^verbatim>\<open>receive_json\<close> returned.\<close>

definition handle_message :: "env \<Rightarrow> world \<Rightarrow> int \<Rightarrow> int \<Rightarrow> user_row \<Rightarrow> inbound \<Rightarrow> unit outcome \<times> world" where
  "handle_message e s room_id uid user data =
     (if d_type data = Some ''chat_message'' then
        (let msg_text = strip (case d_message data of None \<Rightarrow> [] | Some m \<Rightarrow> m) in
         if msg_text \<noteq> [] then
           broadcast s room_id (Chat_message uid (u_username user) msg_text (utcnow e))
         else (Return (), s))
      else if d_type data = Some ''image_upload'' then
        (let ext = (case d_ext data of None \<Rightarrow> ''.png'' | Some x \<Rightarrow> x) in
         case d_data data of
           None \<Rightarrow> (Return (), s)
         | Some img_data \<Rightarrow>
             if img_data \<noteq> [] then
               (case image_upload e s room_id uid user img_data ext of
                  (Raise _, s1) \<Rightarrow> (Return (), s1)
                | (Return _, s1) \<Rightarrow> (Return (), s1))
             else (Return (), s))
      else if d_type data = Some ''command'' then
        handle_command s room_id uid (d_command data) (d_target_id data)
          (case d_reason data of None \<Rightarrow> [] | Some r \<Rightarrow> r)
      else (Return (), s))"

text \<open>
  The \<^verbatim>\<open>finally\<close> block. \<^verbatim>\<open>if conn:\<close> tests a dict with four keys, which is
  true whenever \<^verbatim>\<open>disconnect\<close> returned.
\<close>

definition teardown :: "world \<Rightarrow> int \<Rightarrow> ws \<Rightarrow> unit outcome \<times> world" where
  "teardown s room_id w =
     (case disconnect s room_id w of
        (Raise e, s1) \<Rightarrow> (Raise e, s1)
      | (Return c, s1) \<Rightarrow>
          broadcast s1 room_id (User_left (user_id c) (username c) (get_room_users s1 room_id)))"

text \<open>
  What \<^verbatim>\<open>receive_json\<close> gives: an object, or the WebSocketDisconnect it raises. The
  loop runs over the list of what the client does; when the list is used up the task is
  waiting in \<^verbatim>\<open>receive_json\<close> and the loop has not been left.
\<close>

datatype recv = Received inbound | Disconnected

fun message_loop :: "world \<Rightarrow> int \<Rightarrow> int \<Rightarrow> user_row \<Rightarrow> (env \<times> recv) list \<Rightarrow> unit outcome \<times> world" where
  "message_loop s room_id uid user [] = (Return (), s)"
| "message_loop s room_id uid user ((e, Disconnected) # rest) = (Raise WebSocketDisconnect, s)"
| "message_loop s room_id uid user ((e, Received data) # rest) =
     (case handle_message e s room_id uid user data of
        (Raise x, s1) \<Rightarrow> (Raise x, s1)
      | (Return _, s1) \<Rightarrow> message_loop s1 room_id uid user rest)"

text \<open>
  The identity of the client: the cookie \<^verbatim>\<open>user_id\<close>, or the query parameter of the
  same name when the cookie is missing or empty; \<^verbatim>\<open>None\<close> where the endpoint closes
  the socket in one of its first two \<^verbatim>\<open>except\<close> blocks.
\<close>

definition query_fallback :: "string option \<Rightarrow> string option" where
  "query_fallback query =
     (case query of
        None \<Rightarrow> None
      | Some q \<Rightarrow> map_option py_str (py_int q))"

definition resolve_user_id :: "string option \<Rightarrow> string option \<Rightarrow> int option" where
  "resolve_user_id cookie query =
     (let user_id_cookie =
            (if cookie = None \<or> cookie = Some [] then query_fallback query else cookie)
      in case user_id_cookie of None \<Rightarrow> None | Some c \<Rightarrow> py_int c)"

text \<open>
  The endpoint up to the message loop: \<^verbatim>\<open>Return None\<close> when the socket was closed
  with the policy-violation code, \<^verbatim>\<open>Return (Some (user_id, user))\<close> after
  \<^verbatim>\<open>manager.connect\<close>. The two queries stand outside every \<^verbatim>\<open>try\<close>: what
  they raise leaves the endpoint, and no \<^verbatim>\<open>close\<close> is called.
\<close>

definition websocket_open ::
  "world \<Rightarrow> int \<Rightarrow> ws \<Rightarrow> string option \<Rightarrow> string option \<Rightarrow> (int \<times> user_row) option outcome \<times> world" where
  "websocket_open s room_id w cookie query =
     (case resolve_user_id cookie query of
        None \<Rightarrow> (Return None, ws_close s w WS_1008_POLICY_VIOLATION)
      | Some uid \<Rightarrow>
          (case get_user_by_id s uid of
             Raise e \<Rightarrow> (Raise e, s)
           | Return None \<Rightarrow> (Return None, ws_close s w WS_1008_POLICY_VIOLATION)
           | Return (Some user) \<Rightarrow>
               (case is_banned s room_id uid of
                  Raise e \<Rightarrow> (Raise e, s)
                | Return True \<Rightarrow> (Return None, ws_close s w WS_1008_POLICY_VIOLATION)
                | Return False \<Rightarrow>
                    (case connect s room_id w user of
                       (Raise e, s1) \<Rightarrow> (Raise e, s1)
                     | (Return _, s1) \<Rightarrow> (Return (Some (uid, user)), s1)))))"

definition websocket_endpoint ::
  "world \<Rightarrow> int \<Rightarrow> ws \<Rightarrow> string option \<Rightarrow> string option \<Rightarrow> (env \<times> recv) list \<Rightarrow> unit outcome \<times> world" where
  "websocket_endpoint s room_id w cookie query inputs =
     (case websocket_open s room_id w cookie query of
        (Raise e, s1) \<Rightarrow> (Raise e, s1)
      | (Return None, s1) \<Rightarrow> (Return (), s1)
      | (Return (Some (uid, user)), s1) \<Rightarrow>
          (case message_loop s1 room_id uid user inputs of
             (Return _, s2) \<Rightarrow> (Return (), s2)
           | (Raise x, s2) \<Rightarrow>
               (case teardown s2 room_id w of
                  (Raise e, s3) \<Rightarrow> (Raise e, s3)
                | (Return _, s3) \<Rightarrow>
                    if x = WebSocketDisconnect then (Return (), s3) else (Raise x, s3))))"

subsection \<open>Notions used to state the properties\<close>

text \<open>The connections of a list whose socket is alive, and what a broadcast delivers.\<close>

definition live :: "world \<Rightarrow> conn list \<Rightarrow> conn list" where
  "live s cs = filter (\<lambda>c. alive s (ws c)) cs"

definition deliveries :: "world \<Rightarrow> conn list \<Rightarrow> event \<Rightarrow> (ws \<times> event) list" where
  "deliveries s cs msg = map (\<lambda>c. (ws c, msg)) (live s cs)"

definition member_of :: "conn \<Rightarrow> member" where
  "member_of c = \<lparr>m_user_id = user_id c, m_username = username c, m_role = role c\<rparr>"

text \<open>
  The role the Directory gives a user in a room, \<^verbatim>\<open>roles.get(user_id, "user")\<close>, and
  the two roles \<^verbatim>\<open>handle_command\<close> computes for its caller once its queries have
  returned.
\<close>

definition role_of :: "world \<Rightarrow> int \<Rightarrow> int \<Rightarrow> string" where
  "role_of s room_id uid = (case room_roles s (room_id, uid) of None \<Rightarrow> ''user'' | Some r \<Rightarrow> r)"

definition caller_role_of :: "world \<Rightarrow> int \<Rightarrow> int \<Rightarrow> string" where
  "caller_role_of s room_id caller_id =
     (case room_roles s (room_id, caller_id) of None \<Rightarrow> ''user'' | Some r \<Rightarrow> r)"

definition global_role_of :: "world \<Rightarrow> int \<Rightarrow> string" where
  "global_role_of s caller_id =
     (case users s caller_id of None \<Rightarrow> ''user'' | Some u \<Rightarrow> u_role u)"

text \<open>
  The write-through cache invariant in one room: every registered connection carries the
  role the Directory gives its user.
\<close>

definition cache_inv :: "world \<Rightarrow> int \<Rightarrow> bool" where
  "cache_inv s room_id = list_all (\<lambda>c. role c = role_of s room_id (user_id c)) (rooms_get s room_id)"

subsection \<open>A room to run the program in\<close>

definition alice_conn :: conn where
  "alice_conn = \<lparr>ws = 1, user_id = 1, username = ''alice'', role = ''owner''\<rparr>"

definition bob_conn :: conn where
  "bob_conn = \<lparr>ws = 2, user_id = 2, username = ''bob'', role = ''host''\<rparr>"

definition carol_conn :: conn where
  "carol_conn = \<lparr>ws = 3, user_id = 3, username = ''carol'', role = ''user''\<rparr>"

definition carol_second_conn :: conn where
  "carol_second_conn = \<lparr>ws = 4, user_id = 3, username = ''carol'', role = ''user''\<rparr>"

definition dave_row :: user_row where
  "dave_row = \<lparr>u_id = 4, u_username = ''dave'', u_role = ''user''\<rparr>"

definition carol_row :: user_row where
  "carol_row = \<lparr>u_id = 3, u_username = ''carol'', u_role = ''user''\<rparr>"

text \<open>
  Room 42 with alice (owner), bob (host) and carol connected, every socket alive; dave
  and erin are users who are not connected, erin is banned from the room.
\<close>

definition room42 :: world where
  "room42 =
     \<lparr>rooms = [42 \<mapsto> [alice_conn, bob_conn, carol_conn]],
      users = [1 \<mapsto> \<lparr>u_id = 1, u_username = ''alice'', u_role = ''user''\<rparr>,
               2 \<mapsto> \<lparr>u_id = 2, u_username = ''bob'', u_role = ''user''\<rparr>,
               3 \<mapsto> carol_row,
               4 \<mapsto> dave_row,
               5 \<mapsto> \<lparr>u_id = 5, u_username = ''erin'', u_role = ''user''\<rparr>],
      room_roles = [(42, 1) \<mapsto> ''owner'', (42, 2) \<mapsto> ''host''],
      room_bans = [(42, 5) \<mapsto> ''spam''],
      uploads = [],
      alive = (\<lambda>w. True),
      sent = [],
      closed = []\<rparr>"

text \<open>The same room when carol has a second connection (a second tab).\<close>

definition room42_two_tabs :: world where
  "room42_two_tabs = room42\<lparr>rooms := [42 \<mapsto> [alice_conn, bob_conn, carol_conn, carol_second_conn]]\<rparr>"

text \<open>The same room when bob's socket has failed.\<close>

definition room42_bob_down :: world where
  "room42_bob_down = room42\<lparr>alive := (\<lambda>w. w \<noteq> 2)\<rparr>"

definition test_env :: env where
  "test_env =
     \<lparr>utcnow = ''2024-01-01T00:00:00'',
      token_hex = ''00112233aabbccdd'',
      b64decode = (\<lambda>x. if x = ''aGk='' then Some ''hi'' else None),
      write_file = (\<lambda>name bytes. True)\<rparr>"

definition chat_hi :: inbound where
  "chat_hi =
     \<lparr>d_type = Some ''chat_message'', d_message = Some '' hi '', d_data = None, d_ext = None,
      d_command = None, d_target_id = None, d_reason = None\<rparr>"

definition upload_hi :: inbound where
  "upload_hi =
     \<lparr>d_type = Some ''image_upload'', d_message = None, d_data = Some ''data:image/png;base64,aGk='',
      d_ext = None, d_command = None, d_target_id = None, d_reason = None\<rparr>"


section \<open>Properties\<close>

subsection \<open>The broadcast loop\<close>

lemma list_remove_middle: "x \<notin> set pre \<Longrightarrow> list_remove (pre @ x # cs) x = Return (pre @ cs)"
  by (simp add: list_remove_def remove1_append)

lemma broadcast_loop_eq:
  assumes "rooms s room_id = Some (pre @ cs)" and "\<forall>c\<in>set pre. alive s (ws c)"
  shows "broadcast_loop s room_id cs msg =
           (Return (), s\<lparr>rooms := (rooms s)(room_id \<mapsto> pre @ live s cs),
                          sent := sent s @ deliveries s cs msg\<rparr>)"
  using assms
proof (induction cs arbitrary: s pre)
  case Nil
  then show ?case by (simp add: live_def deliveries_def map_upd_triv)
next
  case (Cons c cs)
  show ?case
  proof (cases "alive s (ws c)")
    case True
    let ?s' = "s\<lparr>sent := sent s @ [(ws c, msg)]\<rparr>"
    have r: "rooms ?s' room_id = Some ((pre @ [c]) @ cs)" using Cons.prems(1) by simp
    have a: "\<forall>d\<in>set (pre @ [c]). alive ?s' (ws d)" using Cons.prems(2) True by simp
    from Cons.IH [OF r a] True show ?thesis
      by (simp add: send_json_def live_def deliveries_def)
  next
    case False
    have notin: "c \<notin> set pre" using Cons.prems(2) False by auto
    let ?s' = "s\<lparr>rooms := (rooms s)(room_id \<mapsto> pre @ cs)\<rparr>"
    have g: "rooms_get s room_id = pre @ c # cs" using Cons.prems(1) by (simp add: rooms_get_def)
    have r: "rooms ?s' room_id = Some (pre @ cs)" by simp
    have a: "\<forall>d\<in>set pre. alive ?s' (ws d)" using Cons.prems(2) by simp
    have ih: "broadcast_loop ?s' room_id cs msg =
                (Return (), ?s'\<lparr>rooms := (rooms ?s')(room_id \<mapsto> pre @ live ?s' cs),
                                 sent := sent ?s' @ deliveries ?s' cs msg\<rparr>)"
      by (rule Cons.IH [OF r a])
    have e1: "live ?s' cs = live s cs" "deliveries ?s' cs msg = deliveries s cs msg"
      by (simp_all add: live_def deliveries_def)
    have e2: "?s'\<lparr>rooms := (rooms ?s')(room_id \<mapsto> Y), sent := Z\<rparr> =
              s\<lparr>rooms := (rooms s)(room_id \<mapsto> Y), sent := Z\<rparr>" for Y Z
      by simp
    have step: "broadcast_loop s room_id (c # cs) msg = broadcast_loop ?s' room_id cs msg"
      using False g notin by (simp add: send_json_def list_remove_middle)
    have l: "live s (c # cs) = live s cs" "deliveries s (c # cs) msg = deliveries s cs msg"
      using False by (simp_all add: live_def deliveries_def)
    show ?thesis
      unfolding step ih e1 l by (auto simp add: fun_eq_iff intro!: world.equality)
  qed
qed

lemma broadcast_eq:
  "broadcast s room_id msg =
     (Return (), s\<lparr>rooms := (rooms s)(room_id \<mapsto> live s (rooms_get s room_id)),
                    sent := sent s @ deliveries s (rooms_get s room_id) msg\<rparr>)"
proof (cases "rooms s room_id")
  case None
  then show ?thesis by (simp add: broadcast_def rooms_get_def live_def deliveries_def)
next
  case (Some cs)
  then have r: "rooms s room_id = Some ([] @ cs)" by simp
  have g: "rooms_get s room_id = cs" using Some by (simp add: rooms_get_def)
  from broadcast_loop_eq [OF r, of msg] g show ?thesis
    by (simp add: broadcast_def rooms_get_def)
qed

text \<open>
  Claim C1. The decision of the command handler is a function of the caller's global role,
  the caller's room role and the command alone: kick and warn are allowed exactly for a
  sysop and for the owner or a host of the room, assign_host and assign_owner exactly for a
  sysop and for the owner, and every other command is denied.
\<close>

theorem authorize_table:
  "authorize global_role caller_role command \<longleftrightarrow>
     (command \<in> {Some ''kick'', Some ''warn''} \<and>
        (global_role = ''sysop'' \<or> caller_role \<in> {''owner'', ''host''})) \<or>
     (command \<in> {Some ''assign_host'', Some ''assign_owner''} \<and>
        (global_role = ''sysop'' \<or> caller_role = ''owner''))"
  by (auto simp add: authorize_def has_privilege_def)

text \<open>
  Claim C3. A broadcast never raises; it delivers the event once to every connection of
  the room whose socket is alive, in the order of the list as it was when the broadcast
  began, a failed send stops no later delivery, and afterwards the room holds exactly the
  connections that did not fail. No other room changes.
\<close>

theorem broadcast_delivers_and_prunes:
  "fst (broadcast s room_id msg) = Return () \<and>
   sent (snd (broadcast s room_id msg)) = sent s @ map (\<lambda>c. (ws c, msg)) (filter (\<lambda>c. alive s (ws c)) (rooms_get s room_id)) \<and>
   rooms_get (snd (broadcast s room_id msg)) room_id = filter (\<lambda>c. alive s (ws c)) (rooms_get s room_id) \<and>
   (\<forall>r. r \<noteq> room_id \<longrightarrow> rooms (snd (broadcast s room_id msg)) r = rooms s r)"
  by (simp add: broadcast_eq rooms_get_def live_def deliveries_def)

text \<open>
  With bob's socket down among the three of room 42, alice and carol receive the event
  and bob is gone from the room.
\<close>

theorem broadcast_delivers_and_prunes_witness:
  "sent (snd (broadcast room42_bob_down 42 (Warn ''x''))) = [(1, Warn ''x''), (3, Warn ''x'')] \<and>
   rooms_get (snd (broadcast room42_bob_down 42 (Warn ''x''))) 42 = [alice_conn, carol_conn] \<and>
   rooms (snd (broadcast room42_bob_down 42 (Warn ''x''))) 7 = rooms room42_bob_down 7"
  using broadcast_delivers_and_prunes [of room42_bob_down 42 "Warn ''x''"]
  by (simp add: room42_bob_down_def room42_def rooms_get_def alice_conn_def bob_conn_def carol_conn_def)

lemma int64_simps:
  "int64 1" "int64 3" "int64 4" "int64 5" "int64 42" "\<not> int64 9223372036854775808"
  by (simp_all add: int64_def)

lemma conn_simps:
  "ws alice_conn = 1" "user_id alice_conn = 1" "username alice_conn = ''alice''" "role alice_conn = ''owner''"
  "ws bob_conn = 2" "user_id bob_conn = 2" "username bob_conn = ''bob''" "role bob_conn = ''host''"
  "ws carol_conn = 3" "user_id carol_conn = 3" "username carol_conn = ''carol''" "role carol_conn = ''user''"
  "ws carol_second_conn = 4" "user_id carol_second_conn = 3" "username carol_second_conn = ''carol''"
  "role carol_second_conn = ''user''"
  by (simp_all add: alice_conn_def bob_conn_def carol_conn_def carol_second_conn_def)

lemma conn_distinct:
  "alice_conn \<noteq> bob_conn" "alice_conn \<noteq> carol_conn" "bob_conn \<noteq> carol_conn"
  "bob_conn \<noteq> alice_conn" "carol_conn \<noteq> alice_conn" "carol_conn \<noteq> bob_conn"
  by (simp_all add: alice_conn_def bob_conn_def carol_conn_def)

lemma row_simps:
  "u_id carol_row = 3" "u_username carol_row = ''carol''" "u_role carol_row = ''user''"
  "u_id dave_row = 4" "u_username dave_row = ''dave''" "u_role dave_row = ''user''"
  by (simp_all add: carol_row_def dave_row_def)

lemma room42_fields:
  "rooms room42 = [42 \<mapsto> [alice_conn, bob_conn, carol_conn]]"
  "room_roles room42 = [(42, 1) \<mapsto> ''owner'', (42, 2) \<mapsto> ''host'']"
  "room_bans room42 = [(42, 5) \<mapsto> ''spam'']"
  "alive room42 = (\<lambda>w. True)" "sent room42 = []" "closed room42 = []" "uploads room42 = []"
  "users room42 1 = Some \<lparr>u_id = 1, u_username = ''alice'', u_role = ''user''\<rparr>"
  "users room42 3 = Some carol_row" "users room42 4 = Some dave_row"
  "users room42 5 = Some \<lparr>u_id = 5, u_username = ''erin'', u_role = ''user''\<rparr>"
  by (simp_all add: room42_def)

lemma two_tabs_fields:
  "rooms room42_two_tabs = [42 \<mapsto> [alice_conn, bob_conn, carol_conn, carol_second_conn]]"
  "room_roles room42_two_tabs = room_roles room42" "alive room42_two_tabs = alive room42"
  "sent room42_two_tabs = sent room42" "users room42_two_tabs = users room42"
  by (simp_all add: room42_two_tabs_def)

lemma get_connection_SomeD:
  "get_connection s room_id target = Some c \<Longrightarrow> Some (user_id c) = target \<and> c \<in> set (rooms_get s room_id)"
  by (auto simp add: get_connection_def find_Some_iff)

lemmas py_int_defs = py_int_def int_strip_def is_int_space_def unsigned_value_def is_digit_def


lemma py_int_huge: "py_int ''9223372036854775808'' = Some 9223372036854775808"
  by (simp add: py_int_defs)

subsection \<open>Commands\<close>

text \<open>
  With both ids in range the two queries return, and \<^verbatim>\<open>handle_command\<close> is its chain
  of branches on the caller's two roles; otherwise a query raises and nothing has happened.
\<close>

lemma handle_command_chain:
  assumes "int64 room_id" and "int64 caller_id"
  shows "handle_command s room_id caller_id command target_id reason =
     (let caller_role = caller_role_of s room_id caller_id;
          global_role = global_role_of s caller_id
      in
      if command = Some ''kick'' \<and> has_privilege global_role caller_role ''kick'' then
        (case get_connection s room_id target_id of
           None \<Rightarrow> (Return (), s)
         | Some target_conn \<Rightarrow>
             (case send_json s (ws target_conn) (Kicked reason) of
                (Raise e, s1) \<Rightarrow> (Raise e, s1)
              | (Return _, s1) \<Rightarrow> (Return (), ws_close s1 (ws target_conn) WS_1000_NORMAL_CLOSURE)))
      else if command = Some ''warn'' \<and> has_privilege global_role caller_role ''warn'' then
        (case get_connection s room_id target_id of
           None \<Rightarrow> (Return (), s)
         | Some target_conn \<Rightarrow> send_json s (ws target_conn) (Warn reason))
      else if command = Some ''assign_host'' \<and> has_privilege global_role caller_role ''assign_host'' then
        assign_branch s room_id target_id ''host''
      else if command = Some ''assign_owner'' \<and> has_privilege global_role caller_role ''assign_owner'' then
        assign_branch s room_id target_id ''owner''
      else
        (case get_connection s room_id (Some caller_id) of
           None \<Rightarrow> (Return (), s)
         | Some caller_conn \<Rightarrow> send_json s (ws caller_conn) (Error error_message)))"
  unfolding handle_command_def get_room_roles_def get_user_by_id_def caller_role_of_def global_role_of_def
  using assms by simp

lemma handle_command_overflow:
  assumes "\<not> (int64 room_id \<and> int64 caller_id)"
  shows "handle_command s room_id caller_id command target_id reason = (Raise OverflowError, s)"
proof (cases "int64 room_id")
  case True
  with assms have "\<not> int64 caller_id" by simp
  with True show ?thesis
    unfolding handle_command_def get_room_roles_def get_user_by_id_def by simp
next
  case False
  then show ?thesis
    unfolding handle_command_def get_room_roles_def by simp
qed

lemma authorize_simps:
  "authorize g r (Some ''kick'') = has_privilege g r ''kick''"
  "authorize g r (Some ''warn'') = has_privilege g r ''warn''"
  by (simp_all add: authorize_def)



lemma handle_command_kick_warn_absent:
  assumes "int64 room_id" and "int64 caller_id"
    and "command = Some ''kick'' \<or> command = Some ''warn''"
    and "authorize (global_role_of s caller_id) (caller_role_of s room_id caller_id) command"
    and "get_connection s room_id target_id = None"
  shows "handle_command s room_id caller_id command target_id reason = (Return (), s)"
proof -
  from assms(3) show ?thesis
  proof
    assume c: "command = Some ''kick''"
    with assms(4) have "has_privilege (global_role_of s caller_id) (caller_role_of s room_id caller_id) ''kick''"
      by (simp add: authorize_simps)
    then show ?thesis by (simp add: handle_command_chain [OF assms(1,2)] Let_def c assms(5))
  next
    assume c: "command = Some ''warn''"
    with assms(4) have "has_privilege (global_role_of s caller_id) (caller_role_of s room_id caller_id) ''warn''"
      by (simp add: authorize_simps)
    then show ?thesis by (simp add: handle_command_chain [OF assms(1,2)] Let_def c assms(5))
  qed
qed

text \<open>
  Claim C10. An allowed kick or warn whose target has no connection in the room sends
  nothing to anyone and leaves the state, with the registry and the role table, as it
  was. The handler returns normally whenever its two queries can run, that is when the
  room id and the caller id fit 64 bits; otherwise the first query raises, as it does in
  the endpoint before any command is read.
\<close>

theorem kick_warn_absent_target_noop:
  assumes "command = Some ''kick'' \<or> command = Some ''warn''"
    and "authorize (global_role_of s caller_id) (caller_role_of s room_id caller_id) command"
    and "get_connection s room_id target_id = None"
  shows "handle_command s room_id caller_id command target_id reason =
           (if int64 room_id \<and> int64 caller_id then Return () else Raise OverflowError, s)"
proof (cases "int64 room_id \<and> int64 caller_id")
  case True
  then show ?thesis using assms by (simp add: handle_command_kick_warn_absent)
next
  case False
  then show ?thesis by (simp add: handle_command_overflow)
qed

text \<open>Alice, the owner of room 42, kicks user 9, who is not connected.\<close>

theorem kick_warn_absent_target_noop_witness:
  "handle_command room42 42 1 (Some ''kick'') (Some 9) ''bye'' = (Return (), room42)"
proof -
  have a: "authorize (global_role_of room42 1) (caller_role_of room42 42 1) (Some ''kick'')"
    by (simp add: authorize_def has_privilege_def global_role_of_def caller_role_of_def room42_fields)
  have g: "get_connection room42 42 (Some 9) = None"
    by (simp add: get_connection_def rooms_get_def room42_fields conn_simps)
  from kick_warn_absent_target_noop [of "Some ''kick''" room42 1 42 "Some 9" "''bye''"] a g
  show ?thesis by (simp add: int64_simps)
qed



text \<open>
  Claim C8. A chat message whose text is empty once stripped changes nothing; otherwise
  every live connection of the room receives one chat event with the sender's id and name,
  the stripped text and the timestamp.
\<close>

theorem chat_message_handled:
  assumes "d_type data = Some ''chat_message''"
  shows "let t = strip (case d_message data of None \<Rightarrow> [] | Some m \<Rightarrow> m);
             r = handle_message e s room_id uid user data
         in (t = [] \<longrightarrow> r = (Return (), s)) \<and>
            (t \<noteq> [] \<longrightarrow>
               fst r = Return () \<and>
               sent (snd r) =
                 sent s @ map (\<lambda>c. (ws c, Chat_message uid (u_username user) t (utcnow e)))
                            (filter (\<lambda>c. alive s (ws c)) (rooms_get s room_id)) \<and>
               room_roles (snd r) = room_roles s)"
  using assms
  by (simp add: handle_message_def Let_def broadcast_eq live_def deliveries_def)

lemma strip_hi: "strip '' hi '' = ''hi''"
  by (simp add: strip_def is_space_def)

text \<open>Carol says hi in room 42.\<close>

theorem chat_message_handled_witness:
  "sent (snd (handle_message test_env room42 42 3 carol_row chat_hi)) =
     [(1, Chat_message 3 ''carol'' ''hi'' ''2024-01-01T00:00:00''),
      (2, Chat_message 3 ''carol'' ''hi'' ''2024-01-01T00:00:00''),
      (3, Chat_message 3 ''carol'' ''hi'' ''2024-01-01T00:00:00'')]"
proof -
  have t: "d_type chat_hi = Some ''chat_message''" by (simp add: chat_hi_def)
  have m: "d_message chat_hi = Some '' hi ''" by (simp add: chat_hi_def)
  have u: "utcnow test_env = ''2024-01-01T00:00:00''" by (simp add: test_env_def)
  from chat_message_handled [OF t, of test_env room42 42 3 carol_row] show ?thesis
    by (simp add: m u strip_hi Let_def rooms_get_def room42_fields conn_simps row_simps)
qed

lemma assign_host_two_tabs:
  "handle_command room42_two_tabs 42 1 (Some ''assign_host'') (Some 3) [] =
     broadcast
       (room42_two_tabs
          \<lparr>room_roles := (room_roles room42)((42, 3) \<mapsto> ''host''),
           rooms := [42 \<mapsto> [alice_conn, bob_conn, carol_conn\<lparr>role := ''host''\<rparr>, carol_second_conn]]\<rparr>)
       42
       (Role_update (Some 3) ''host''
          (map member_of [alice_conn, bob_conn, carol_conn\<lparr>role := ''host''\<rparr>, carol_second_conn]))"
proof -
  let ?s1 = "room42_two_tabs\<lparr>room_roles := (room_roles room42)((42, 3) \<mapsto> ''host'')\<rparr>"
  let ?cs = "[alice_conn, bob_conn, carol_conn\<lparr>role := ''host''\<rparr>, carol_second_conn]"
  let ?s2 = "?s1\<lparr>rooms := [42 \<mapsto> ?cs]\<rparr>"
  have hc: "handle_command room42_two_tabs 42 1 (Some ''assign_host'') (Some 3) [] =
            assign_branch room42_two_tabs 42 (Some 3) ''host''"
    by (simp add: handle_command_chain [OF int64_simps(5) int64_simps(1)] has_privilege_def
        global_role_of_def caller_role_of_def two_tabs_fields room42_fields)
  have a1: "assign_room_role room42_two_tabs 42 (Some 3) ''host'' = (Return (), ?s1)"
    by (simp add: assign_room_role_def int64_simps two_tabs_fields)
  have rg: "rooms_get ?s1 42 = [alice_conn, bob_conn, carol_conn, carol_second_conn]"
    by (simp add: rooms_get_def two_tabs_fields)
  have g: "get_connection ?s1 42 (Some 3) = Some carol_conn"
    by (simp add: get_connection_def rg conn_simps)
  have st: "set_target_role ?s1 42 (Some 3) ''host'' = ?s2"
    by (simp add: set_target_role_def g rg conn_simps two_tabs_fields)
  have ab: "assign_branch room42_two_tabs 42 (Some 3) ''host'' =
            broadcast ?s2 42 (Role_update (Some 3) ''host'' (get_room_users ?s2 42))"
    by (simp add: assign_branch_def a1 st Let_def)
  have ru: "get_room_users ?s2 42 = map member_of ?cs"
    by (simp add: get_room_users_def member_of_def rooms_get_def)
  show ?thesis
    unfolding hc ab ru by simp
qed

text \<open>
  Claim C6. The claim does not hold when the target has two connections: after alice
  makes carol a host, the Directory and carol's first connection say host, her second
  connection still says user.
\<close>

theorem assign_host_leaves_second_connection_stale:
  "cache_inv room42_two_tabs 42 \<and>
   fst (handle_command room42_two_tabs 42 1 (Some ''assign_host'') (Some 3) []) = Return () \<and>
   rooms_get (snd (handle_command room42_two_tabs 42 1 (Some ''assign_host'') (Some 3) [])) 42 =
     [alice_conn, bob_conn, carol_conn\<lparr>role := ''host''\<rparr>, carol_second_conn] \<and>
   role_of (snd (handle_command room42_two_tabs 42 1 (Some ''assign_host'') (Some 3) [])) 42 3 = ''host'' \<and>
   \<not> cache_inv (snd (handle_command room42_two_tabs 42 1 (Some ''assign_host'') (Some 3) [])) 42"
  unfolding assign_host_two_tabs broadcast_eq
  by (simp add: cache_inv_def role_of_def rooms_get_def live_def two_tabs_fields room42_fields conn_simps)

subsection \<open>Messages\<close>

text \<open>
  Claim C9. When decoding or writing an upload fails, the handler returns normally with
  the state unchanged, so nothing is sent and the loop goes on; when both succeed the file
  is stored and every live connection receives one image event with its URL.
\<close>

theorem image_upload_handled:
  assumes "d_type data = Some ''image_upload''" and "d_data data = Some img" and "img \<noteq> []"
  shows "let unique_name = token_hex e @ (case d_ext data of None \<Rightarrow> ''.png'' | Some x \<Rightarrow> x);
             r = handle_message e s room_id uid user data
         in (b64decode e (encoded_part img) = None \<longrightarrow> r = (Return (), s)) \<and>
            (\<forall>bytes. b64decode e (encoded_part img) = Some bytes \<longrightarrow>
               (\<not> write_file e unique_name bytes \<longrightarrow> r = (Return (), s)) \<and>
               (write_file e unique_name bytes \<longrightarrow>
                  fst r = Return () \<and>
                  sent (snd r) =
                    sent s @ map (\<lambda>c. (ws c, Image_message uid (u_username user)
                                               (''/uploads/'' @ unique_name) (utcnow e)))
                               (filter (\<lambda>c. alive s (ws c)) (rooms_get s room_id)) \<and>
                  uploads (snd r) = uploads s @ [(unique_name, bytes)]))"
  using assms
  by (simp add: handle_message_def image_upload_def Let_def broadcast_eq live_def deliveries_def rooms_get_def)

lemma encoded_hi: "encoded_part ''data:image/png;base64,aGk='' = ''aGk=''"
  by (simp add: encoded_part_def)

text \<open>Carol uploads a data URI that decodes.\<close>

theorem image_upload_handled_witness:
  "sent (snd (handle_message test_env room42 42 3 carol_row upload_hi)) =
     [(1, Image_message 3 ''carol'' ''/uploads/00112233aabbccdd.png'' ''2024-01-01T00:00:00''),
      (2, Image_message 3 ''carol'' ''/uploads/00112233aabbccdd.png'' ''2024-01-01T00:00:00''),
      (3, Image_message 3 ''carol'' ''/uploads/00112233aabbccdd.png'' ''2024-01-01T00:00:00'')] \<and>
   uploads (snd (handle_message test_env room42 42 3 carol_row upload_hi)) =
     [(''00112233aabbccdd.png'', ''hi'')]"
proof -
  have t: "d_type upload_hi = Some ''image_upload''" by (simp add: upload_hi_def)
  have d: "d_data upload_hi = Some ''data:image/png;base64,aGk=''" by (simp add: upload_hi_def)
  have n: "''data:image/png;base64,aGk='' \<noteq> []" by simp
  have x: "d_ext upload_hi = None" by (simp add: upload_hi_def)
  have e: "utcnow test_env = ''2024-01-01T00:00:00''" "token_hex test_env = ''00112233aabbccdd''"
    "b64decode test_env ''aGk='' = Some ''hi''" "write_file test_env ''00112233aabbccdd.png'' ''hi''"
    by (simp_all add: test_env_def)
  from image_upload_handled [OF t d n, of test_env room42 42 3 carol_row] show ?thesis
    by (simp add: x e encoded_hi Let_def rooms_get_def room42_fields conn_simps row_simps)
qed

text \<open>
  Claim C2. The claim does not hold of \<^verbatim>\<open>disconnect\<close>: for a handle that is not
  registered it returns the last connection of the room, and raises when the room is empty.
  In room 42 a handle that was never registered, and alice's handle at a second
  \<^verbatim>\<open>disconnect\<close>, both give carol's connection, and the \<^verbatim>\<open>finally\<close> block then
  announces that carol left.
\<close>

theorem disconnect_unknown_handle_returns_last_entry:
  "fst (disconnect room42 42 9) = Return carol_conn \<and>
   fst (disconnect (snd (disconnect room42 42 1)) 42 1) = Return carol_conn \<and>
   fst (disconnect room42 7 1) = Raise UnboundLocalError \<and>
   sent (snd (teardown room42 42 9)) =
     map (\<lambda>w. (w, User_left 3 ''carol'' (map member_of [alice_conn, bob_conn, carol_conn]))) [1, 2, 3]"
  by (simp add: teardown_def broadcast_eq live_def deliveries_def get_room_users_def member_of_def
      disconnect_def rooms_get_def list_remove_def Let_def room42_fields conn_simps conn_distinct)

subsection \<open>Opening a session\<close>



text \<open>
  What the endpoint does when it turns a client away: no user id can be read from the
  cookie or, the cookie being absent or empty, from the query parameter; the id names no
  user; the user is banned. It closes the socket with code 1008 and does nothing else. A
  cookie that is not empty decides alone.
\<close>

lemma rejection_closes_1008:
  assumes "resolve_user_id cookie query = None \<or>
           (\<exists>uid. resolve_user_id cookie query = Some uid \<and>
                  (get_user_by_id s uid = Return None \<or>
                   (\<exists>user. get_user_by_id s uid = Return (Some user)) \<and> is_banned s room_id uid = Return True))"
  shows "websocket_open s room_id w cookie query = (Return None, ws_close s w WS_1008_POLICY_VIOLATION)"
    and "websocket_endpoint s room_id w cookie query inputs = (Return (), ws_close s w WS_1008_POLICY_VIOLATION)"
    and "rooms (ws_close s w WS_1008_POLICY_VIOLATION) = rooms s"
    and "sent (ws_close s w WS_1008_POLICY_VIOLATION) = sent s"
    and "closed (ws_close s w WS_1008_POLICY_VIOLATION) = closed s @ [(w, 1008)]"
proof -
  show o: "websocket_open s room_id w cookie query = (Return None, ws_close s w WS_1008_POLICY_VIOLATION)"
    using assms by (auto simp add: websocket_open_def split: option.splits)
  show "websocket_endpoint s room_id w cookie query inputs = (Return (), ws_close s w WS_1008_POLICY_VIOLATION)"
    unfolding websocket_endpoint_def o by simp
qed (simp_all add: ws_close_def WS_1008_POLICY_VIOLATION_def)

lemma resolve_user_id_cases:
  "resolve_user_id (Some (c # cs)) query = py_int (c # cs)"
  "resolve_user_id None None = None"
  "resolve_user_id (Some []) None = None"
  "resolve_user_id None (Some q) = (case py_int q of None \<Rightarrow> None | Some n \<Rightarrow> py_int (py_str n))"
  by (simp_all add: resolve_user_id_def query_fallback_def split: option.splits)

text \<open>
  Claim C7. The claim does not hold of a token that is a well-formed integer outside the
  64 bits of the database: \<^verbatim>\<open>int\<close> accepts it, the lookup of the user raises
  OverflowError outside every \<^verbatim>\<open>try\<close>, and the endpoint is left without
  \<^verbatim>\<open>close(1008)\<close> having been called. Nothing is registered and nothing is sent.
\<close>

theorem huge_user_id_leaves_without_close:
  "resolve_user_id (Some ''9223372036854775808'') None = Some 9223372036854775808 \<and>
   websocket_open room42 42 9 (Some ''9223372036854775808'') None = (Raise OverflowError, room42) \<and>
   websocket_endpoint room42 42 9 (Some ''9223372036854775808'') None [] = (Raise OverflowError, room42) \<and>
   closed room42 = []"
proof -
  have a: "resolve_user_id (Some ''9223372036854775808'') None = Some 9223372036854775808"
    by (simp add: resolve_user_id_def py_int_huge)
  have o: "websocket_open room42 42 9 (Some ''9223372036854775808'') None = (Raise OverflowError, room42)"
    by (simp add: websocket_open_def a get_user_by_id_def int64_simps)
  show ?thesis
    unfolding websocket_endpoint_def o by (simp add: a room42_fields)
qed



end
